theory Spec2Isabelle
  imports Complex_Main "HOL-Library.Sublist"
begin

section \<open>Python values\<close>

text \<open>
  The price predictor is Python: \<^verbatim>\<open>utils.py\<close> holds the feature builder, the market
  comparator and the artifact loader, and the two \<^verbatim>\<open>app.py\<close> files hold two variants of
  the request handlers. Exceptions are values of \<open>pyerr\<close>; a function that may raise
  returns \<open>pyerr + 'a\<close> with \<open>Inl\<close> the exception.

  Floats are idealised: a finite float is a real number, arithmetic on finite floats is
  exact and has unbounded range (no binary64 rounding, no overflow), and the three
  special values are kept, since pandas and \<^verbatim>\<open>float()\<close> produce them. Strings are ASCII.
\<close>

datatype pyerr = ValueError | TypeError | KeyError | AttributeError | ZeroDivisionError
  | BadRequest

datatype pyfloat = Fin real | PosInf | NegInf | NaN

text \<open>
  A JSON scalar as \<^verbatim>\<open>request.get_json\<close> delivers it; the raw features of the data model
  map attribute names to scalars. \<open>PFloat m e\<close> is the float read from the decimal
  literal \<open>m\<cdot>10\<^sup>e\<close>.
\<close>

datatype pyval = PNone | PBool bool | PInt int | PFloat int int | PStr string

text \<open>An element of a feature vector: \<^verbatim>\<open>list.index\<close> gives an int, \<^verbatim>\<open>float()\<close> a float.\<close>

datatype pynum = IntV int | FloatV pyfloat

type_synonym features = "string \<rightharpoonup> pyval"

definition bind_exn :: "pyerr + 'a \<Rightarrow> ('a \<Rightarrow> pyerr + 'b) \<Rightarrow> pyerr + 'b" where
  "bind_exn r f = (case r of Inl e \<Rightarrow> Inl e | Inr x \<Rightarrow> f x)"

subsection \<open>Float comparison and arithmetic\<close>

fun flt :: "pyfloat \<Rightarrow> pyfloat \<Rightarrow> bool" where
  "flt NaN _ = False"
| "flt _ NaN = False"
| "flt (Fin a) (Fin b) = (a < b)"
| "flt (Fin _) PosInf = True"
| "flt (Fin _) NegInf = False"
| "flt PosInf _ = False"
| "flt NegInf NegInf = False"
| "flt NegInf _ = True"

fun fle :: "pyfloat \<Rightarrow> pyfloat \<Rightarrow> bool" where
  "fle NaN _ = False"
| "fle _ NaN = False"
| "fle (Fin a) (Fin b) = (a \<le> b)"
| "fle (Fin _) PosInf = True"
| "fle (Fin _) NegInf = False"
| "fle PosInf PosInf = True"
| "fle PosInf _ = False"
| "fle NegInf _ = True"

fun fneg :: "pyfloat \<Rightarrow> pyfloat" where
  "fneg (Fin a) = Fin (- a)"
| "fneg PosInf = NegInf"
| "fneg NegInf = PosInf"
| "fneg NaN = NaN"

fun fadd :: "pyfloat \<Rightarrow> pyfloat \<Rightarrow> pyfloat" where
  "fadd NaN _ = NaN"
| "fadd _ NaN = NaN"
| "fadd (Fin a) (Fin b) = Fin (a + b)"
| "fadd PosInf NegInf = NaN"
| "fadd NegInf PosInf = NaN"
| "fadd PosInf _ = PosInf"
| "fadd NegInf _ = NegInf"
| "fadd (Fin _) b = b"

definition fsub :: "pyfloat \<Rightarrow> pyfloat \<Rightarrow> pyfloat" where
  "fsub a b = fadd a (fneg b)"

fun fabs :: "pyfloat \<Rightarrow> pyfloat" where
  "fabs (Fin a) = Fin \<bar>a\<bar>"
| "fabs PosInf = PosInf"
| "fabs NegInf = PosInf"
| "fabs NaN = NaN"

text \<open>The sign of a float that is not NaN: \<open>-1\<close>, \<open>0\<close> or \<open>1\<close>.\<close>

fun fsgn :: "pyfloat \<Rightarrow> real" where
  "fsgn (Fin a) = sgn a"
| "fsgn PosInf = 1"
| "fsgn NegInf = - 1"
| "fsgn NaN = 0"

definition inf_of_sign :: "real \<Rightarrow> pyfloat" where
  "inf_of_sign s = (if s < 0 then NegInf else PosInf)"

fun fmul :: "pyfloat \<Rightarrow> pyfloat \<Rightarrow> pyfloat" where
  "fmul NaN _ = NaN"
| "fmul _ NaN = NaN"
| "fmul (Fin a) (Fin b) = Fin (a * b)"
| "fmul a b = (if fsgn a * fsgn b = 0 then NaN else inf_of_sign (fsgn a * fsgn b))"

text \<open>
  Python's \<^verbatim>\<open>/\<close> on floats raises \<^verbatim>\<open>ZeroDivisionError\<close> when the divisor is zero, also for
  a NaN or infinite dividend.
\<close>

definition fdiv :: "pyfloat \<Rightarrow> pyfloat \<Rightarrow> pyerr + pyfloat" where
  "fdiv a b =
     (case b of
        Fin y \<Rightarrow>
          if y = 0 then Inl ZeroDivisionError
          else (case a of
                  Fin x \<Rightarrow> Inr (Fin (x / y))
                | NaN \<Rightarrow> Inr NaN
                | _ \<Rightarrow> Inr (inf_of_sign (fsgn a * sgn y)))
      | NaN \<Rightarrow> Inr NaN
      | _ \<Rightarrow> (case a of Fin x \<Rightarrow> Inr (Fin 0) | _ \<Rightarrow> Inr NaN))"

text \<open>
  \<^verbatim>\<open>max(a, b)\<close> keeps \<open>a\<close> unless \<open>b > a\<close>; \<^verbatim>\<open>min(a, b)\<close> keeps \<open>a\<close> unless \<open>b < a\<close>.
  With a NaN argument every comparison is false, so the first argument is kept.
\<close>

definition py_max :: "pyfloat \<Rightarrow> pyfloat \<Rightarrow> pyfloat" where
  "py_max a b = (if flt a b then b else a)"

definition py_min :: "pyfloat \<Rightarrow> pyfloat \<Rightarrow> pyfloat" where
  "py_min a b = (if flt b a then b else a)"

text \<open>
  \<^verbatim>\<open>round(x, n)\<close> on a float: to the nearest multiple of \<open>10\<^sup>-\<^sup>n\<close>, a tie going to the even
  one; NaN and the infinities round to themselves.
\<close>

definition round_half_even :: "real \<Rightarrow> int" where
  "round_half_even y =
     (let f = \<lfloor>y\<rfloor>; d = y - of_int f
      in if d < 1/2 then f else if 1/2 < d then f + 1 else if even f then f else f + 1)"

fun py_round :: "pyfloat \<Rightarrow> nat \<Rightarrow> pyfloat" where
  "py_round (Fin x) n = Fin (of_int (round_half_even (x * 10 ^ n)) / 10 ^ n)"
| "py_round x n = x"

subsection \<open>Strings\<close>

text \<open>\<^verbatim>\<open>str.lower\<close> on ASCII: the letters \<^verbatim>\<open>A\<close> to \<^verbatim>\<open>Z\<close> go to \<^verbatim>\<open>a\<close> to \<^verbatim>\<open>z\<close>.\<close>

definition lower_char :: "char \<Rightarrow> char" where
  "lower_char c =
     (let n = of_char c :: nat in if 65 \<le> n \<and> n \<le> 90 then char_of (n + 32) else c)"

definition py_lower :: "string \<Rightarrow> string" where
  "py_lower s = map lower_char s"

definition endswith :: "string \<Rightarrow> string \<Rightarrow> bool" where
  "endswith s suf = (length suf \<le> length s \<and> drop (length s - length suf) s = suf)"

definition startswith :: "string \<Rightarrow> string \<Rightarrow> bool" where
  "startswith s pre = (take (length pre) s = pre)"

text \<open>\<^verbatim>\<open>sub in s\<close> on strings: \<open>sub\<close> occurs in \<open>s\<close> as a contiguous block.\<close>

fun contains :: "string \<Rightarrow> string \<Rightarrow> bool" where
  "contains [] sub = (sub = [])"
| "contains (c # s) sub = (startswith (c # s) sub \<or> contains s sub)"

text \<open>
  \<^verbatim>\<open>s.replace(old, new)\<close> for a non-empty \<open>old\<close>: every occurrence, scanning from the left,
  without overlap.
\<close>

function replace :: "string \<Rightarrow> string \<Rightarrow> string \<Rightarrow> string" where
  "replace s old new =
     (if s = [] \<or> old = [] then s
      else if startswith s old then new @ replace (drop (length old) s) old new
      else hd s # replace (tl s) old new)"
  by pat_completeness auto
termination
  by (relation "measure (\<lambda>(s, old, new). length s)") auto

declare replace.simps [simp del]

text \<open>\<^verbatim>\<open>xs.index(v)\<close> when \<open>v\<close> is in \<open>xs\<close>: the position of its first occurrence.\<close>

fun index_of :: "'a list \<Rightarrow> 'a \<Rightarrow> nat" where
  "index_of [] v = 0"
| "index_of (x # xs) v = (if x = v then 0 else Suc (index_of xs v))"

subsection \<open>\<^verbatim>\<open>str()\<close>\<close>

definition digit_char :: "nat \<Rightarrow> char" where
  "digit_char d = ''0123456789'' ! (d mod 10)"

fun show_nat :: "nat \<Rightarrow> string" where
  "show_nat n = (if n < 10 then [digit_char n] else show_nat (n div 10) @ [digit_char n])"

declare show_nat.simps [simp del]

definition show_int :: "int \<Rightarrow> string" where
  "show_int i = (if i < 0 then CHR ''-'' # show_nat (nat (- i)) else show_nat (nat i))"

text \<open>
  \<^verbatim>\<open>repr\<close> of the float \<open>m\<cdot>10\<^sup>e\<close>: the significant digits \<open>ds\<close> without trailing zeros and
  the position \<open>decpt\<close> of the decimal point (the value is \<open>0.ds\<close> times ten to the
  \<open>decpt\<close>); positional notation when \<open>-4 < decpt \<le> 16\<close>, exponent notation otherwise, the
  exponent with a sign and at least two digits.
\<close>

definition strip_zeros :: "string \<Rightarrow> string" where
  "strip_zeros ds = rev (dropWhile (\<lambda>c. c = CHR ''0'') (rev ds))"

definition float_repr :: "int \<Rightarrow> int \<Rightarrow> string" where
  "float_repr m e =
     (if m = 0 then ''0.0''
      else
        let sign = (if m < 0 then ''-'' else []);
            full = show_nat (nat \<bar>m\<bar>);
            ds = strip_zeros full;
            decpt = int (length full) + e;
            n = int (length ds)
        in if - 4 < decpt \<and> decpt \<le> 16
           then sign @
             (if decpt \<le> 0 then ''0.'' @ replicate (nat (- decpt)) CHR ''0'' @ ds
              else if n \<le> decpt then ds @ replicate (nat (decpt - n)) CHR ''0'' @ ''.0''
              else take (nat decpt) ds @ ''.'' @ drop (nat decpt) ds)
           else
             let x = decpt - 1;
                 xs = show_nat (nat \<bar>x\<bar>)
             in sign @ take 1 ds @ (if 1 < n then ''.'' @ drop 1 ds else [])
                  @ ''e'' @ (if x < 0 then ''-'' else ''+'')
                  @ (if length xs < 2 then ''0'' @ xs else xs))"

fun py_str :: "pyval \<Rightarrow> string" where
  "py_str PNone = ''None''"
| "py_str (PBool b) = (if b then ''True'' else ''False'')"
| "py_str (PInt i) = show_int i"
| "py_str (PFloat m e) = float_repr m e"
| "py_str (PStr s) = s"

subsection \<open>\<^verbatim>\<open>float()\<close>\<close>

text \<open>
  On a string, \<^verbatim>\<open>float\<close> strips ASCII whitespace at both ends, accepts an underscore only
  between two digits, and then reads an optional sign followed by \<^verbatim>\<open>inf\<close>, \<^verbatim>\<open>infinity\<close> or
  \<^verbatim>\<open>nan\<close> in any case, or by a decimal number: digits with an optional point (at least one
  digit on one side of it) and an optional exponent. Anything else is a \<^verbatim>\<open>ValueError\<close>.
\<close>

definition is_space :: "char \<Rightarrow> bool" where
  "is_space c = (c \<in> set [CHR '' '', CHR 0x09, CHR 0x0A, CHR 0x0B, CHR 0x0C, CHR 0x0D])"

definition is_digit :: "char \<Rightarrow> bool" where
  "is_digit c = (c \<in> set ''0123456789'')"

definition strip :: "string \<Rightarrow> string" where
  "strip s = rev (dropWhile is_space (rev (dropWhile is_space s)))"

text \<open>
  The underscore check runs over the stripped string with the previous character at
  hand (\<open>None\<close> at the start) and returns the string without its underscores.
\<close>

fun drop_underscores :: "char option \<Rightarrow> string \<Rightarrow> string option" where
  "drop_underscores prev [] = (if prev = Some CHR ''_'' then None else Some [])"
| "drop_underscores prev (c # s) =
     (if c = CHR ''_''
      then (case prev of
              None \<Rightarrow> None
            | Some p \<Rightarrow> if is_digit p then drop_underscores (Some c) s else None)
      else if prev = Some CHR ''_'' \<and> \<not> is_digit c then None
      else map_option ((#) c) (drop_underscores (Some c) s))"

definition digit_val :: "char \<Rightarrow> nat" where
  "digit_val c = of_char c - 48"

definition digits_val :: "string \<Rightarrow> nat" where
  "digits_val ds = foldl (\<lambda>a c. 10 * a + digit_val c) 0 ds"

definition pow10 :: "int \<Rightarrow> real" where
  "pow10 e = (if 0 \<le> e then 10 ^ nat e else 1 / 10 ^ nat (- e))"

text \<open>An optional sign: the sign read (\<open>True\<close> for minus) and the rest.\<close>

fun read_sign :: "string \<Rightarrow> bool \<times> string" where
  "read_sign [] = (False, [])"
| "read_sign (c # s) =
     (if c = CHR ''-'' then (True, s) else if c = CHR ''+'' then (False, s) else (False, c # s))"

text \<open>The exponent part: empty, or \<^verbatim>\<open>e\<close> or \<^verbatim>\<open>E\<close>, an optional sign and at least one digit.\<close>

definition read_exponent :: "string \<Rightarrow> int option" where
  "read_exponent s =
     (case s of
        [] \<Rightarrow> Some 0
      | c # r \<Rightarrow>
          if c = CHR ''e'' \<or> c = CHR ''E''
          then (let (neg, ds) = read_sign r
                in if ds \<noteq> [] \<and> list_all is_digit ds
                   then Some (if neg then - int (digits_val ds) else int (digits_val ds))
                   else None)
          else None)"

definition read_number :: "string \<Rightarrow> real option" where
  "read_number s =
     (let ip = takeWhile is_digit s;
          r1 = dropWhile is_digit s;
          has_point = (r1 \<noteq> [] \<and> hd r1 = CHR ''.'');
          fp = (if has_point then takeWhile is_digit (tl r1) else []);
          r2 = (if has_point then dropWhile is_digit (tl r1) else r1)
      in if ip = [] \<and> fp = [] then None
         else (case read_exponent r2 of
                 None \<Rightarrow> None
               | Some x \<Rightarrow> Some (real (digits_val (ip @ fp)) * pow10 (x - int (length fp)))))"

definition float_of_string :: "string \<Rightarrow> pyerr + pyfloat" where
  "float_of_string s =
     (case drop_underscores None (strip s) of
        None \<Rightarrow> Inl ValueError
      | Some t \<Rightarrow>
          let (neg, r) = read_sign t; w = py_lower r
          in if w = ''inf'' \<or> w = ''infinity'' then Inr (if neg then NegInf else PosInf)
             else if w = ''nan'' then Inr NaN
             else (case read_number r of
                     None \<Rightarrow> Inl ValueError
                   | Some v \<Rightarrow> Inr (Fin (if neg then - v else v))))"

text \<open>
  \<^verbatim>\<open>float(v)\<close>: \<^verbatim>\<open>None\<close> is a \<^verbatim>\<open>TypeError\<close>, a boolean is 0 or 1, a number is its value (an
  integer of any size, since the floats of the model have no largest one).
\<close>

fun py_float :: "pyval \<Rightarrow> pyerr + pyfloat" where
  "py_float PNone = Inl TypeError"
| "py_float (PBool b) = Inr (Fin (if b then 1 else 0))"
| "py_float (PInt i) = Inr (Fin (of_int i))"
| "py_float (PFloat m e) = Inr (Fin (of_int m * pow10 e))"
| "py_float (PStr s) = float_of_string s"

section \<open>Feature vectors (\<^verbatim>\<open>utils.py\<close>)\<close>

text \<open>
  Modelled from the spec: the types of the fields of a schema, which the source reads
  from a remote JSON file and declares nowhere. They are those of the data model: lists
  of column names, class lists per categorical column, and the model information with
  its \<^verbatim>\<open>r2_score\<close>. The source reads the four keys with \<^verbatim>\<open>.get\<close> and a default, so each
  field is optional; \<^verbatim>\<open>{}\<close> is the schema with no key.
\<close>

record modelinfo =
  r2_score :: "pyval option"

record schema =
  feature_columns :: "string list option"
  categorical_columns :: "string list option"
  encoders :: "(string \<rightharpoonup> string list) option"
  model_info :: "modelinfo option"

definition empty_schema :: schema where
  "empty_schema =
     \<lparr>feature_columns = None, categorical_columns = None, encoders = None, model_info = None\<rparr>"

text \<open>\<^verbatim>\<open>d.get(k, default)\<close>\<close>

definition dict_get :: "('k \<rightharpoonup> 'v) \<Rightarrow> 'k \<Rightarrow> 'v \<Rightarrow> 'v" where
  "dict_get d k dflt = (case d k of None \<Rightarrow> dflt | Some v \<Rightarrow> v)"

definition opt_get :: "'a option \<Rightarrow> 'a \<Rightarrow> 'a" where
  "opt_get x dflt = (case x of None \<Rightarrow> dflt | Some v \<Rightarrow> v)"

definition defaults :: "(string \<times> pyval) list" where
  "defaults =
     [(''rating'', PFloat 40 (- 1)),
      (''discount'', PFloat 100 (- 1)),
      (''discount_percentage'', PFloat 100 (- 1)),
      (''stock'', PInt 50),
      (''warranty'', PInt 12),
      (''screen_size'', PFloat 60 (- 1)),
      (''storage'', PInt 128),
      (''ram'', PInt 8),
      (''processor_score'', PInt 2000),
      (''dimensions'', PInt 100),
      (''weight'', PInt 20)]"

definition get_default_value :: "string \<Rightarrow> pyval" where
  "get_default_value name = dict_get (map_of defaults) name (PInt 0)"

text \<open>
  The loop of \<^verbatim>\<open>prepare_features\<close> over \<^verbatim>\<open>feature_columns\<close>, with the vector built so far.
  \<^verbatim>\<open>col[:-8]\<close> drops the eight characters of the suffix. The only call that can raise is
  \<^verbatim>\<open>float\<close>.
\<close>

fun prepare_loop ::
  "features \<Rightarrow> string list \<Rightarrow> (string \<rightharpoonup> string list) \<Rightarrow> string list \<Rightarrow> pynum list
     \<Rightarrow> pyerr + pynum list" where
  "prepare_loop data cat_cols encs [] feats = Inr feats"
| "prepare_loop data cat_cols encs (col # cols) feats =
     (if endswith col ''_encoded''
      then (let original = take (length col - 8) col
            in if original \<in> set cat_cols
               then (let val = py_str (dict_get data original (PStr []));
                         classes = dict_get encs original []
                     in prepare_loop data cat_cols encs cols
                          (feats @ [IntV (if val \<in> set classes
                                          then int (index_of classes val) else 0)]))
               else prepare_loop data cat_cols encs cols (feats @ [IntV 0]))
      else (case py_float (dict_get data col (get_default_value col)) of
              Inl e \<Rightarrow> Inl e
            | Inr x \<Rightarrow> prepare_loop data cat_cols encs cols (feats @ [FloatV x])))"

definition prepare_features :: "features \<Rightarrow> schema \<Rightarrow> pyerr + pynum list" where
  "prepare_features data sch =
     prepare_loop data (opt_get (categorical_columns sch) [])
       (opt_get (encoders sch) Map.empty) (opt_get (feature_columns sch) []) []"

subsection \<open>The feature vector as the specification describes it\<close>

text \<open>
  One number per column name, written from the description of the builder: the ordinal
  position of a label in a class list, the neutral value, and the table of defaults.
\<close>

definition ordinal_position :: "string list \<Rightarrow> string \<Rightarrow> nat" where
  "ordinal_position classes s =
     (if s \<in> set classes then length (takeWhile (\<lambda>c. c \<noteq> s) classes) else 0)"

definition default_table :: "string \<Rightarrow> real" where
  "default_table name =
     (if name = ''rating'' then 4
      else if name = ''discount'' \<or> name = ''discount_percentage'' then 10
      else if name = ''stock'' then 50
      else if name = ''warranty'' then 12
      else if name = ''screen_size'' then 6
      else if name = ''storage'' then 128
      else if name = ''ram'' then 8
      else if name = ''processor_score'' then 2000
      else if name = ''dimensions'' then 100
      else if name = ''weight'' then 20
      else 0)"

definition described_feature :: "features \<Rightarrow> schema \<Rightarrow> string \<Rightarrow> pyerr + pynum" where
  "described_feature data sch name =
     (if endswith name ''_encoded''
      then (let base = take (length name - length ''_encoded'') name
            in if base \<in> set (opt_get (categorical_columns sch) [])
               then Inr (IntV (int (ordinal_position
                      (dict_get (opt_get (encoders sch) Map.empty) base [])
                      (case data base of None \<Rightarrow> [] | Some v \<Rightarrow> py_str v))))
               else Inr (IntV 0))
      else (case data name of
              None \<Rightarrow> Inr (FloatV (Fin (default_table name)))
            | Some v \<Rightarrow> map_sum id FloatV (py_float v)))"

text \<open>
  Every plain numeric column that the request supplies holds a value \<^verbatim>\<open>float\<close> accepts.
\<close>

definition coercible :: "features \<Rightarrow> schema \<Rightarrow> bool" where
  "coercible data sch =
     (\<forall>name \<in> set (opt_get (feature_columns sch) []).
        \<not> endswith name ''_encoded'' \<longrightarrow>
        (case data name of None \<Rightarrow> True | Some v \<Rightarrow> \<not> isl (py_float v)))"

section \<open>Market datasets (pandas)\<close>

text \<open>
  A market dataset is the \<^verbatim>\<open>DataFrame\<close> that \<^verbatim>\<open>read_csv\<close> built: named columns, each of a
  numeric or of the object dtype, and rows that list their cells by column name. A cell
  is a float (NaN when the CSV field is empty) or a string; a cell that a row does not
  hold reads as NaN.
\<close>

datatype cell = CNum pyfloat | CStr string

datatype dtype = Numeric | Object

type_synonym row = "(string \<times> cell) list"

record dataframe =
  columns :: "(string \<times> dtype) list"
  rows :: "row list"

definition cell_at :: "row \<Rightarrow> string \<Rightarrow> cell" where
  "cell_at r c = (case map_of r c of None \<Rightarrow> CNum NaN | Some x \<Rightarrow> x)"

text \<open>\<^verbatim>\<open>df.empty\<close>: an axis of length zero.\<close>

definition df_empty :: "dataframe \<Rightarrow> bool" where
  "df_empty df = (rows df = [] \<or> columns df = [])"

text \<open>\<^verbatim>\<open>name in df.columns\<close>\<close>

definition has_column :: "dataframe \<Rightarrow> string \<Rightarrow> bool" where
  "has_column df name = (map_of (columns df) name \<noteq> None)"

text \<open>\<^verbatim>\<open>df[mask]\<close> for a boolean mask aligned with the rows.\<close>

definition index_mask :: "dataframe \<Rightarrow> bool list \<Rightarrow> dataframe" where
  "index_mask df msk = df\<lparr>rows := map fst (filter snd (zip (rows df) msk))\<rparr>"

text \<open>\<^verbatim>\<open>mask.any()\<close>\<close>

definition mask_any :: "bool list \<Rightarrow> bool" where
  "mask_any msk = (True \<in> set msk)"

text \<open>
  \<^verbatim>\<open>df[name].str.lower() == s\<close>: the \<^verbatim>\<open>.str\<close> accessor exists on object columns only; a
  cell that is not a string lowers to NaN, which equals no string.
\<close>

definition str_lower_eq :: "dataframe \<Rightarrow> string \<Rightarrow> string \<Rightarrow> pyerr + bool list" where
  "str_lower_eq df name s =
     (case map_of (columns df) name of
        None \<Rightarrow> Inl KeyError
      | Some Numeric \<Rightarrow> Inl AttributeError
      | Some Object \<Rightarrow>
          Inr (map (\<lambda>r. case cell_at r name of CStr t \<Rightarrow> py_lower t = s | CNum _ \<Rightarrow> False)
                 (rows df)))"

text \<open>
  \<^verbatim>\<open>abs(df[name] - x) <= tol\<close>: subtracting a float from a string cell is a \<^verbatim>\<open>TypeError\<close>;
  a comparison with NaN is false.
\<close>

definition is_str :: "cell \<Rightarrow> bool" where
  "is_str c = (case c of CStr _ \<Rightarrow> True | CNum _ \<Rightarrow> False)"

definition num_of :: "cell \<Rightarrow> pyfloat" where
  "num_of c = (case c of CNum v \<Rightarrow> v | CStr _ \<Rightarrow> NaN)"

definition abs_diff_le :: "dataframe \<Rightarrow> string \<Rightarrow> pyfloat \<Rightarrow> real \<Rightarrow> pyerr + bool list" where
  "abs_diff_le df name x tol =
     (if \<not> has_column df name then Inl KeyError
      else if list_ex (\<lambda>r. is_str (cell_at r name)) (rows df) then Inl TypeError
      else Inr (map (\<lambda>r. fle (fabs (fsub (num_of (cell_at r name)) x)) (Fin tol)) (rows df)))"

text \<open>
  \<^verbatim>\<open>df[name].mean()\<close>: NaN cells are skipped; the mean of no value is NaN; a string cell
  is a \<^verbatim>\<open>TypeError\<close> (pandas 2; the properties below are about columns without strings).
\<close>

definition is_nan :: "pyfloat \<Rightarrow> bool" where
  "is_nan v = (case v of NaN \<Rightarrow> True | _ \<Rightarrow> False)"

definition fsum :: "pyfloat list \<Rightarrow> pyfloat" where
  "fsum vs = foldl fadd (Fin 0) vs"

definition mean_skipna :: "pyfloat list \<Rightarrow> pyfloat" where
  "mean_skipna vs =
     (let ws = filter (\<lambda>v. \<not> is_nan v) vs
      in if ws = [] then NaN
         else (case fsum ws of Fin s \<Rightarrow> Fin (s / real (length ws)) | v \<Rightarrow> v))"

definition col_mean :: "dataframe \<Rightarrow> string \<Rightarrow> pyerr + pyfloat" where
  "col_mean df name =
     (if \<not> has_column df name then Inl KeyError
      else if list_ex (\<lambda>r. is_str (cell_at r name)) (rows df) then Inl TypeError
      else Inr (mean_skipna (map (\<lambda>r. num_of (cell_at r name)) (rows df))))"

section \<open>The market average (\<^verbatim>\<open>utils.py\<close>)\<close>

text \<open>
  The brand step and the furniture step are the same code on two column names: a
  case-insensitive match, kept only when some row matches.
\<close>

definition text_filter :: "features \<Rightarrow> string \<Rightarrow> dataframe \<Rightarrow> pyerr + dataframe" where
  "text_filter feats name df =
     (case feats name of
        None \<Rightarrow> Inr df
      | Some v \<Rightarrow>
          if has_column df name
          then bind_exn (str_lower_eq df name (py_lower (py_str v)))
                 (\<lambda>msk. Inr (if mask_any msk then index_mask df msk else df))
          else Inr df)"

definition brand_filter :: "features \<Rightarrow> dataframe \<Rightarrow> pyerr + dataframe" where
  "brand_filter feats df = text_filter feats ''brand'' df"

text \<open>
  A tolerance band: \<^verbatim>\<open>df = df[abs(df[name] - float(features[name])) <= tol]\<close> when the
  feature is supplied and the column exists. \<^verbatim>\<open>float\<close> runs before the subtraction.
\<close>

definition band_filter :: "features \<Rightarrow> string \<Rightarrow> real \<Rightarrow> dataframe \<Rightarrow> pyerr + dataframe" where
  "band_filter feats name tol df =
     (case feats name of
        None \<Rightarrow> Inr df
      | Some v \<Rightarrow>
          if has_column df name
          then bind_exn (py_float v)
                 (\<lambda>x. bind_exn (abs_diff_le df name x tol) (\<lambda>msk. Inr (index_mask df msk)))
          else Inr df)"

definition category_narrowing :: "string \<Rightarrow> features \<Rightarrow> dataframe \<Rightarrow> pyerr + dataframe" where
  "category_narrowing cat feats df =
     (if cat = ''phones''
      then bind_exn (band_filter feats ''storage'' 128 df) (band_filter feats ''ram'' 4)
      else if cat = ''laptops''
      then bind_exn (band_filter feats ''ram'' 8 df) (band_filter feats ''storage'' 256)
      else if cat = ''furniture'' then text_filter feats ''material'' df
      else Inr df)"

text \<open>The brand step followed by the category step.\<close>

definition narrow_steps :: "string \<Rightarrow> features \<Rightarrow> dataframe \<Rightarrow> pyerr + dataframe" where
  "narrow_steps cat feats full = bind_exn (brand_filter feats full) (category_narrowing cat feats)"

text \<open>\<^verbatim>\<open># broaden if too few\<close>: \<open>full\<close> is \<^verbatim>\<open>market_data[category]\<close>.\<close>

definition broaden :: "features \<Rightarrow> dataframe \<Rightarrow> dataframe \<Rightarrow> pyerr + dataframe" where
  "broaden feats full df =
     (if length (rows df) < 5 then band_filter feats ''rating'' 1 full else Inr df)"

text \<open>The body of the \<^verbatim>\<open>try\<close> block.\<close>

definition market_try :: "string \<Rightarrow> features \<Rightarrow> dataframe \<Rightarrow> pyerr + pyfloat" where
  "market_try cat feats full =
     bind_exn (narrow_steps cat feats full)
       (\<lambda>df. bind_exn (broaden feats full df)
          (\<lambda>df'. if df_empty df' then col_mean full ''price'' else col_mean df' ''price''))"

definition calculate_market_average ::
  "string \<Rightarrow> features \<Rightarrow> (string \<rightharpoonup> dataframe) \<Rightarrow> pyerr + pyfloat" where
  "calculate_market_average cat feats market_data =
     (case market_data cat of
        None \<Rightarrow> Inr (Fin 500)
      | Some full \<Rightarrow>
          if df_empty full then Inr (Fin 500)
          else (case market_try cat feats full of
                  Inr v \<Rightarrow> Inr v
                | Inl e \<Rightarrow> col_mean full ''price''))"

subsection \<open>Notions for the properties of the market average\<close>










section \<open>The prediction handlers (\<^verbatim>\<open>app.py\<close>)\<close>

text \<open>
  The trained model is external: \<^verbatim>\<open>float(model.predict([feats])[0])\<close> is a function from
  the feature vector to a price that may raise. The request body is what
  \<^verbatim>\<open>request.get_json(force=True) or {}\<close> gives: a JSON object, or the exception it raised.
\<close>

type_synonym predictor = "pynum list \<Rightarrow> pyerr + pyfloat"

record comparison_info =
  vs_market :: string
  difference :: pyfloat
  percentage :: pyfloat

record prediction =
  category :: string
  predicted_price :: pyfloat
  market_average :: pyfloat
  confidence :: pyfloat
  comparison :: comparison_info

record app_prediction = prediction +
  features_used :: features

datatype 'a response = Ok200 'a | NotFound404 | Error500 pyerr

definition respond :: "pyerr + 'a \<Rightarrow> 'a response" where
  "respond r = (case r of Inl e \<Rightarrow> Error500 e | Inr out \<Rightarrow> Ok200 out)"

text \<open>\<^verbatim>\<open>schema.get("model_info", {}).get("r2_score", 0.8)\<close>\<close>

definition r2_of :: "schema \<Rightarrow> pyval" where
  "r2_of sch =
     (case model_info sch of
        None \<Rightarrow> PFloat 8 (- 1)
      | Some info \<Rightarrow> opt_get (r2_score info) (PFloat 8 (- 1)))"

text \<open>
  A value in a comparison with a float: a number compares by its value, \<^verbatim>\<open>None\<close> and a
  string raise \<^verbatim>\<open>TypeError\<close>.
\<close>

fun py_number :: "pyval \<Rightarrow> pyerr + pyfloat" where
  "py_number PNone = Inl TypeError"
| "py_number (PStr s) = Inl TypeError"
| "py_number v = py_float v"

subsection \<open>\<^verbatim>\<open>src/price-predictor-backend/app.py\<close>\<close>

text \<open>\<^verbatim>\<open>max(0.6, min(0.95, float(r2)))\<close>\<close>

definition backend_confidence :: "schema \<Rightarrow> pyerr + pyfloat" where
  "backend_confidence sch =
     bind_exn (py_float (r2_of sch)) (\<lambda>r2. Inr (py_max (Fin 0.6) (py_min (Fin 0.95) r2)))"

text \<open>\<^verbatim>\<open>avg or 1\<close>: a float is false exactly when it is zero.\<close>

definition or_one :: "pyfloat \<Rightarrow> pyfloat" where
  "or_one avg = (if avg = Fin 0 then Fin 1 else avg)"

text \<open>\<^verbatim>\<open>round(abs(pred - avg) / (avg or 1) * 100, 2)\<close>\<close>

definition backend_percentage :: "pyfloat \<Rightarrow> pyfloat \<Rightarrow> pyerr + pyfloat" where
  "backend_percentage pred avg =
     bind_exn (fdiv (fabs (fsub pred avg)) (or_one avg))
       (\<lambda>q. Inr (py_round (fmul q (Fin 100)) 2))"

definition backend_compute ::
  "predictor \<Rightarrow> schema \<Rightarrow> (string \<rightharpoonup> dataframe) \<Rightarrow> string \<Rightarrow> pyerr + features
     \<Rightarrow> pyerr + prediction" where
  "backend_compute model sch market_data cat body =
     bind_exn body (\<lambda>payload.
     bind_exn (prepare_features payload sch) (\<lambda>feature_vec.
     bind_exn (model feature_vec) (\<lambda>pred.
     bind_exn (calculate_market_average cat payload market_data) (\<lambda>avg.
     bind_exn (backend_confidence sch) (\<lambda>conf.
     bind_exn (backend_percentage pred avg) (\<lambda>pct.
       Inr \<lparr>category = cat,
            predicted_price = py_round pred 2,
            market_average = py_round avg 2,
            confidence = py_round conf 2,
            comparison =
              \<lparr>vs_market = (if flt avg pred then ''above'' else ''below''),
               difference = py_round (fabs (fsub pred avg)) 2,
               percentage = pct\<rparr>\<rparr>))))))"

definition backend_predict ::
  "(string \<rightharpoonup> predictor) \<Rightarrow> (string \<rightharpoonup> schema) \<Rightarrow> (string \<rightharpoonup> dataframe) \<Rightarrow> string
     \<Rightarrow> pyerr + features \<Rightarrow> prediction response" where
  "backend_predict models schemas market_data cat body =
     (case models cat of
        None \<Rightarrow> NotFound404
      | Some model \<Rightarrow>
          (case schemas cat of
             None \<Rightarrow> NotFound404
           | Some sch \<Rightarrow> respond (backend_compute model sch market_data cat body)))"

subsection \<open>\<^verbatim>\<open>src/app.py\<close>\<close>

text \<open>\<^verbatim>\<open>max(0.6, min(0.95, model_info.get("r2_score", 0.8)))\<close>, without \<^verbatim>\<open>float\<close>.\<close>

definition app_confidence :: "schema \<Rightarrow> pyerr + pyfloat" where
  "app_confidence sch =
     bind_exn (py_number (r2_of sch)) (\<lambda>r2. Inr (py_max (Fin 0.6) (py_min (Fin 0.95) r2)))"

text \<open>\<^verbatim>\<open>round(abs(y_hat - market_avg) / max(market_avg, 1e-6) * 100, 1)\<close>\<close>

definition app_percentage :: "pyfloat \<Rightarrow> pyfloat \<Rightarrow> pyerr + pyfloat" where
  "app_percentage y_hat market_avg =
     bind_exn (fdiv (fabs (fsub y_hat market_avg)) (py_max market_avg (Fin 0.000001)))
       (\<lambda>q. Inr (py_round (fmul q (Fin 100)) 1))"

definition app_compute ::
  "predictor \<Rightarrow> (string \<rightharpoonup> schema) \<Rightarrow> (string \<rightharpoonup> dataframe) \<Rightarrow> string \<Rightarrow> pyerr + features
     \<Rightarrow> pyerr + app_prediction" where
  "app_compute model schemas market_data cat body =
     bind_exn body (\<lambda>data.
     let sch = dict_get schemas cat empty_schema in
     bind_exn (prepare_features data sch) (\<lambda>feats.
     bind_exn (model feats) (\<lambda>y_hat.
     bind_exn (calculate_market_average cat data market_data) (\<lambda>market_avg.
     bind_exn (app_confidence sch) (\<lambda>conf.
     bind_exn (app_percentage y_hat market_avg) (\<lambda>pct.
       Inr \<lparr>category = cat,
            predicted_price = py_round y_hat 2,
            market_average = py_round market_avg 2,
            confidence = py_round conf 2,
            comparison =
              \<lparr>vs_market = (if flt market_avg y_hat then ''above'' else ''below''),
               difference = py_round (fabs (fsub y_hat market_avg)) 2,
               percentage = pct\<rparr>,
            features_used = data\<rparr>))))))"

definition app_predict ::
  "(string \<rightharpoonup> predictor) \<Rightarrow> (string \<rightharpoonup> schema) \<Rightarrow> (string \<rightharpoonup> dataframe) \<Rightarrow> string
     \<Rightarrow> pyerr + features \<Rightarrow> app_prediction response" where
  "app_predict models schemas market_data cat body =
     (case models cat of
        None \<Rightarrow> NotFound404
      | Some model \<Rightarrow> respond (app_compute model schemas market_data cat body))"

text \<open>
  The percentage as the specification words it, rounded to \<open>n\<close> decimals, on finite
  prices: the difference over the larger of the market average and \<open>10\<^sup>-\<^sup>6\<close>, times 100.
\<close>

definition described_percentage :: "nat \<Rightarrow> real \<Rightarrow> real \<Rightarrow> pyfloat" where
  "described_percentage n pred avg =
     py_round (Fin (\<bar>pred - avg\<bar> / max avg 0.000001 * 100)) n"

fun is_number :: "pyval \<Rightarrow> bool" where
  "is_number (PBool b) = True"
| "is_number (PInt i) = True"
| "is_number (PFloat m e) = True"
| "is_number v = False"

section \<open>The artifact loader (\<^verbatim>\<open>utils.py\<close>)\<close>

text \<open>
  The remote store answers four kinds of request. What it answers is a parameter of a
  call; the requests sent are recorded in the state, next to the module's caches.

  The listing is the JSON body of the GitHub API answer, or a failure (the request or
  \<^verbatim>\<open>raise_for_status\<close> or \<^verbatim>\<open>resp.json()\<close> raised). An entry of a JSON list is an object,
  of which only the value under \<^verbatim>\<open>name\<close> is read, or something else. A JSON body that is
  not a list (an object such as the rate limit message, a string, a number) yields no
  category, by iteration over keys or characters or by a \<^verbatim>\<open>TypeError\<close>.
\<close>

datatype request = ListModels | GetModel string | GetSchema string | GetData string

datatype entry = EntryDict "pyval option" | EntryOther

datatype listing = ListingFailed | ListingList "entry list" | ListingOther

text \<open>
  A schema answer: the request failed, or it carries a \<^verbatim>\<open>Content-Type\<close> header (if any)
  and a body that \<^verbatim>\<open>s.json()\<close> parses to a schema or rejects.
\<close>

datatype schema_response = SchemaFailed | SchemaResponse "string option" "schema option"

record 'm network =
  list_models :: listing
  fetch_model :: "string \<Rightarrow> 'm option"
  fetch_schema :: "string \<Rightarrow> schema_response"
  fetch_data :: "string \<Rightarrow> dataframe option"

text \<open>
  The module state: the three dictionaries in insertion order, the category list
  (\<^verbatim>\<open>None\<close> at import), and the requests sent so far.
\<close>

record 'm cache =
  cached_models :: "(string \<times> 'm) list"
  cached_schemas :: "(string \<times> schema) list"
  cached_data :: "(string \<times> dataframe) list"
  cached_categories :: "string list option"
  requests_sent :: "request list"

definition initial_cache :: "'m cache" where
  "initial_cache =
     \<lparr>cached_models = [], cached_schemas = [], cached_data = [],
      cached_categories = None, requests_sent = []\<rparr>"

text \<open>\<^verbatim>\<open>d[k] = v\<close> on a dictionary kept as its list of items.\<close>

fun dict_set :: "('k \<times> 'v) list \<Rightarrow> 'k \<Rightarrow> 'v \<Rightarrow> ('k \<times> 'v) list" where
  "dict_set [] k v = [(k, v)]"
| "dict_set ((k', v') # d) k v = (if k' = k then (k, v) # d else (k', v') # dict_set d k v)"

definition fallback_categories :: "string list" where
  "fallback_categories = [''phones'', ''laptops'', ''furniture'']"

text \<open>
  The list comprehension over the listing: \<open>None\<close> when a \<^verbatim>\<open>name\<close> that is not a string
  makes \<^verbatim>\<open>.endswith\<close> raise.
\<close>

fun listed_categories :: "entry list \<Rightarrow> string list option" where
  "listed_categories [] = Some []"
| "listed_categories (EntryOther # fs) = listed_categories fs"
| "listed_categories (EntryDict None # fs) = listed_categories fs"
| "listed_categories (EntryDict (Some (PStr name)) # fs) =
     (case listed_categories fs of
        None \<Rightarrow> None
      | Some cs \<Rightarrow> Some (if endswith name ''.pkl'' then replace name ''.pkl'' [] # cs else cs))"
| "listed_categories (EntryDict (Some v) # fs) = None"

definition discover :: "listing \<Rightarrow> string list" where
  "discover l =
     (case l of
        ListingList fs \<Rightarrow>
          (case listed_categories fs of
             None \<Rightarrow> fallback_categories
           | Some cs \<Rightarrow> if cs = [] then fallback_categories else cs)
      | _ \<Rightarrow> fallback_categories)"

definition get_categories_from_github :: "'m network \<Rightarrow> 'm cache \<Rightarrow> string list \<times> 'm cache" where
  "get_categories_from_github net st =
     (case cached_categories st of
        Some (c # cs) \<Rightarrow> (c # cs, st)
      | _ \<Rightarrow>
          (let found = discover (list_models net)
           in (found, st\<lparr>cached_categories := Some found,
                        requests_sent := requests_sent st @ [ListModels]\<rparr>)))"

text \<open>One round of the loop: the model, the schema and the data of a category, each in
  its own \<^verbatim>\<open>try\<close>.\<close>

definition load_model :: "'m network \<Rightarrow> string \<Rightarrow> 'm cache \<Rightarrow> 'm cache" where
  "load_model net c st =
     (let st' = st\<lparr>requests_sent := requests_sent st @ [GetModel c]\<rparr>
      in case fetch_model net c of
           None \<Rightarrow> st'
         | Some m \<Rightarrow> st'\<lparr>cached_models := dict_set (cached_models st') c m\<rparr>)"

definition load_schema :: "'m network \<Rightarrow> string \<Rightarrow> 'm cache \<Rightarrow> 'm cache" where
  "load_schema net c st =
     (let st' = st\<lparr>requests_sent := requests_sent st @ [GetSchema c]\<rparr>
      in case fetch_schema net c of
           SchemaFailed \<Rightarrow> st'
         | SchemaResponse ctype body \<Rightarrow>
             if \<not> contains (opt_get ctype []) ''json'' then st'
             else (case body of
                     None \<Rightarrow> st'
                   | Some s \<Rightarrow> st'\<lparr>cached_schemas := dict_set (cached_schemas st') c s\<rparr>))"

definition load_data :: "'m network \<Rightarrow> string \<Rightarrow> 'm cache \<Rightarrow> 'm cache" where
  "load_data net c st =
     (let st' = st\<lparr>requests_sent := requests_sent st @ [GetData c]\<rparr>
      in case fetch_data net c of
           None \<Rightarrow> st'
         | Some d \<Rightarrow> st'\<lparr>cached_data := dict_set (cached_data st') c d\<rparr>)"

fun load_loop :: "'m network \<Rightarrow> string list \<Rightarrow> 'm cache \<Rightarrow> 'm cache" where
  "load_loop net [] st = st"
| "load_loop net (c # cs) st =
     load_loop net cs (load_data net c (load_schema net c (load_model net c st)))"

text \<open>What a call returns: the three dictionaries.\<close>

definition cached :: "'m cache \<Rightarrow> (string \<times> 'm) list \<times> (string \<times> schema) list \<times> (string \<times> dataframe) list" where
  "cached st = (cached_models st, cached_schemas st, cached_data st)"

definition load_models_and_schemas ::
  "'m network \<Rightarrow> 'm cache
     \<Rightarrow> ((string \<times> 'm) list \<times> (string \<times> schema) list \<times> (string \<times> dataframe) list) \<times> 'm cache" where
  "load_models_and_schemas net st =
     (if cached_models st \<noteq> [] \<and> cached_schemas st \<noteq> [] \<and> cached_data st \<noteq> []
      then (cached st, st)
      else (let (categories, st1) = get_categories_from_github net st;
                st2 = load_loop net categories st1
            in (cached st2, st2)))"

section \<open>Example inputs\<close>

text \<open>The schema and the furniture dataset of the specification's examples.\<close>

definition phone_schema :: schema where
  "phone_schema =
     \<lparr>feature_columns = Some [''ram'', ''storage_encoded''],
      categorical_columns = Some [''storage''],
      encoders = Some [''storage'' \<mapsto> [''64'', ''128'', ''256'']],
      model_info = Some \<lparr>r2_score = Some (PFloat 12 (- 1))\<rparr>\<rparr>"

definition furniture_data :: dataframe where
  "furniture_data =
     \<lparr>columns = [(''price'', Numeric), (''brand'', Object), (''material'', Object),
                 (''rating'', Numeric)],
      rows =
        [[(''price'', CNum (Fin 100)), (''brand'', CStr ''Ikea''),
          (''material'', CStr ''Oak''), (''rating'', CNum (Fin 4.5))],
         [(''price'', CNum (Fin 200)), (''brand'', CStr ''Ikea''),
          (''material'', CStr ''Pine''), (''rating'', CNum (Fin 3))],
         [(''price'', CNum (Fin 300)), (''brand'', CStr ''Herman''),
          (''material'', CStr ''Steel''), (''rating'', CNum (Fin 2))]]\<rparr>"


text \<open>
  The datasets of a process: furniture is loaded, the laptops file had a header and no
  row, and the phones file could not be fetched.
\<close>

definition header_only :: dataframe where
  "header_only = \<lparr>columns = [(''price'', Numeric), (''rating'', Numeric)], rows = []\<rparr>"

definition example_market :: "string \<rightharpoonup> dataframe" where
  "example_market = [''furniture'' \<mapsto> furniture_data, ''laptops'' \<mapsto> header_only]"

text \<open>A model fitted on two features: it rejects a vector of another length.\<close>

definition fitted_model :: predictor where
  "fitted_model v = (if length v = 2 then Inr (Fin 450) else Inl ValueError)"

text \<open>A store that is unreachable: every request fails.\<close>

definition unreachable :: "predictor network" where
  "unreachable =
     \<lparr>list_models = ListingFailed, fetch_model = (\<lambda>c. None),
      fetch_schema = (\<lambda>c. SchemaFailed), fetch_data = (\<lambda>c. None)\<rparr>"

text \<open>A store that serves the phones category.\<close>

definition phone_store :: "predictor network" where
  "phone_store =
     \<lparr>list_models = ListingList [EntryDict (Some (PStr ''phones.pkl'')), EntryDict (Some (PStr ''README.md''))],
      fetch_model = (\<lambda>c. if c = ''phones'' then Some fitted_model else None),
      fetch_schema = (\<lambda>c. if c = ''phones''
                           then SchemaResponse (Some ''application/json; charset=utf-8'') (Some phone_schema)
                           else SchemaFailed),
      fetch_data = (\<lambda>c. if c = ''phones'' then Some furniture_data else None)\<rparr>"

section \<open>Properties of the feature builder\<close>

lemma default_float: "py_float (get_default_value name) = Inr (Fin (default_table name))"
  by (simp add: get_default_value_def defaults_def default_table_def dict_get_def pow10_def)

lemma index_of_position:
  "s \<in> set cls \<Longrightarrow> index_of cls s = length (takeWhile (\<lambda>c. c \<noteq> s) cls)"
  by (induction cls) auto

lemma prepare_loop_step:
  "prepare_loop data (opt_get (categorical_columns sch) []) (opt_get (encoders sch) Map.empty)
     (col # cols) feats =
   (case described_feature data sch col of
      Inl e \<Rightarrow> Inl e
    | Inr x \<Rightarrow> prepare_loop data (opt_get (categorical_columns sch) [])
                 (opt_get (encoders sch) Map.empty) cols (feats @ [x]))"
proof (cases "endswith col ''_encoded''")
  case True
  have suffix: "length ''_encoded'' = 8" by simp
  have val: "py_str (dict_get data b (PStr [])) = (case data b of None \<Rightarrow> [] | Some v \<Rightarrow> py_str v)"
    for b by (simp add: dict_get_def split: option.splits)
  from True show ?thesis
    unfolding described_feature_def suffix
    by (simp only: prepare_loop.simps val Let_def if_True ordinal_position_def)
       (simp add: index_of_position)
next
  case False
  show ?thesis
  proof (cases "data col")
    case None
    with False show ?thesis
      by (simp add: described_feature_def dict_get_def default_float)
  next
    case (Some v)
    with False show ?thesis
      by (cases "py_float v") (simp_all add: described_feature_def dict_get_def)
  qed
qed

lemma prepare_loop_total:
  "\<forall>name \<in> set cols. \<not> isl (described_feature data sch name) \<Longrightarrow>
   prepare_loop data (opt_get (categorical_columns sch) []) (opt_get (encoders sch) Map.empty)
     cols feats = Inr (feats @ map (\<lambda>n. projr (described_feature data sch n)) cols)"
proof (induction cols arbitrary: feats)
  case Nil
  then show ?case by simp
next
  case (Cons col cols)
  from Cons.prems obtain x where x: "described_feature data sch col = Inr x"
    by (cases "described_feature data sch col") auto
  from Cons.prems have rest: "\<forall>name \<in> set cols. \<not> isl (described_feature data sch name)"
    by simp
  show ?case
    unfolding prepare_loop_step using x Cons.IH [OF rest, of "feats @ [x]"] by simp
qed

lemma prepare_loop_raises:
  "name \<in> set cols \<Longrightarrow> isl (described_feature data sch name) \<Longrightarrow>
   isl (prepare_loop data (opt_get (categorical_columns sch) [])
          (opt_get (encoders sch) Map.empty) cols feats)"
proof (induction cols arbitrary: feats)
  case Nil
  then show ?case by simp
next
  case (Cons col cols)
  show ?case
  proof (cases "described_feature data sch col")
    case (Inl e)
    then show ?thesis unfolding prepare_loop_step by simp
  next
    case (Inr x)
    with Cons.prems have "name \<in> set cols" by auto
    from Cons.IH [OF this Cons.prems(2), of "feats @ [x]"] Inr
    show ?thesis unfolding prepare_loop_step by simp
  qed
qed

lemma described_feature_raises:
  "isl (described_feature data sch name) =
   (\<not> endswith name ''_encoded'' \<and> (\<exists>v. data name = Some v \<and> isl (py_float v)))"
proof (cases "endswith name ''_encoded''")
  case True
  then show ?thesis by (simp add: described_feature_def Let_def)
next
  case False
  then show ?thesis
    by (cases "data name"; cases "py_float (the (data name))")
       (auto simp add: described_feature_def)
qed

lemma coercible_described:
  "coercible data sch =
   (\<forall>name \<in> set (opt_get (feature_columns sch) []). \<not> isl (described_feature data sch name))"
  unfolding coercible_def described_feature_raises
  by (auto split: option.splits)

text \<open>
  Claim C1, as amended. For every schema and every raw attribute mapping whose supplied
  plain numeric values are all accepted by \<^verbatim>\<open>float\<close>, \<^verbatim>\<open>prepare_features\<close> returns a vector
  with one number per name of \<^verbatim>\<open>feature_columns\<close>, in order: the ordinal position of the
  stringified raw value in the class list of an encoded categorical (0 when it is not in
  the list), 0 for an encoded name whose base is not a declared categorical, and for any
  other name the raw value coerced to a float or, when absent, the default of the table.
\<close>

theorem prepare_features_described:
  assumes "coercible data sch"
  shows "\<exists>v. prepare_features data sch = Inr v
           \<and> length v = length (opt_get (feature_columns sch) [])
           \<and> (\<forall>i < length (opt_get (feature_columns sch) []).
                 described_feature data sch (opt_get (feature_columns sch) [] ! i) = Inr (v ! i))"
proof -
  let ?cols = "opt_get (feature_columns sch) []"
  let ?v = "map (\<lambda>n. projr (described_feature data sch n)) ?cols"
  from assms have ok: "\<forall>name \<in> set ?cols. \<not> isl (described_feature data sch name)"
    by (simp add: coercible_described)
  have run: "prepare_features data sch = Inr ?v"
    unfolding prepare_features_def using prepare_loop_total [OF ok, of "[]"] by simp
  have "described_feature data sch (?cols ! i) = Inr (?v ! i)" if "i < length ?cols" for i
  proof -
    from that have "?cols ! i \<in> set ?cols" by simp
    with ok have "\<not> isl (described_feature data sch (?cols ! i))" by blast
    with that show ?thesis by (cases "described_feature data sch (?cols ! i)") simp_all
  qed
  with run show ?thesis by simp
qed

text \<open>
  Claim C4, as amended. \<^verbatim>\<open>prepare_features\<close> raises exactly when some plain numeric column
  of the schema is supplied with a value that \<^verbatim>\<open>float\<close> rejects. A missing key, an unknown
  or missing categorical value and a schema without a field never raise: each is
  replaced by its default.
\<close>

theorem prepare_features_raises_iff:
  "isl (prepare_features data sch) =
   (\<exists>name \<in> set (opt_get (feature_columns sch) []).
      \<not> endswith name ''_encoded'' \<and> (\<exists>v. data name = Some v \<and> isl (py_float v)))"
proof
  assume raised: "isl (prepare_features data sch)"
  show "\<exists>name \<in> set (opt_get (feature_columns sch) []).
      \<not> endswith name ''_encoded'' \<and> (\<exists>v. data name = Some v \<and> isl (py_float v))"
  proof (rule ccontr)
    assume "\<not> ?thesis"
    then have "\<forall>name \<in> set (opt_get (feature_columns sch) []).
        \<not> isl (described_feature data sch name)"
      unfolding described_feature_raises by blast
    from prepare_loop_total [OF this, of "[]"] raised show False
      by (simp add: prepare_features_def)
  qed
next
  assume "\<exists>name \<in> set (opt_get (feature_columns sch) []).
      \<not> endswith name ''_encoded'' \<and> (\<exists>v. data name = Some v \<and> isl (py_float v))"
  then obtain name where "name \<in> set (opt_get (feature_columns sch) [])"
    and "isl (described_feature data sch name)"
    unfolding described_feature_raises by blast
  then show "isl (prepare_features data sch)"
    unfolding prepare_features_def by (rule prepare_loop_raises)
qed

subsection \<open>Instances\<close>

theorem prepare_features_described_witness:
  "coercible [''ram'' \<mapsto> PInt 6, ''storage'' \<mapsto> PStr ''128''] phone_schema
   \<and> (\<exists>v. prepare_features [''ram'' \<mapsto> PInt 6, ''storage'' \<mapsto> PStr ''128''] phone_schema = Inr v
          \<and> length v = length (opt_get (feature_columns phone_schema) [])
          \<and> (\<forall>i < length (opt_get (feature_columns phone_schema) []).
                described_feature [''ram'' \<mapsto> PInt 6, ''storage'' \<mapsto> PStr ''128''] phone_schema
                  (opt_get (feature_columns phone_schema) [] ! i) = Inr (v ! i)))
   \<and> prepare_features [''ram'' \<mapsto> PInt 6, ''storage'' \<mapsto> PStr ''128''] phone_schema
       = Inr [FloatV (Fin 6), IntV 1]
   \<and> prepare_features [''ram'' \<mapsto> PInt 6] phone_schema = Inr [FloatV (Fin 6), IntV 0]
   \<and> described_feature Map.empty phone_schema ''rating'' = Inr (FloatV (Fin 4))"
proof -
  have missing: "prepare_features [''ram'' \<mapsto> PInt 6] phone_schema = Inr [FloatV (Fin 6), IntV 0]"
    by code_simp
  have rating: "described_feature Map.empty phone_schema ''rating'' = Inr (FloatV (Fin 4))"
    by code_simp
  have h: "coercible [''ram'' \<mapsto> PInt 6, ''storage'' \<mapsto> PStr ''128''] phone_schema"
    by code_simp
  have v: "prepare_features [''ram'' \<mapsto> PInt 6, ''storage'' \<mapsto> PStr ''128''] phone_schema
             = Inr [FloatV (Fin 6), IntV 1]"
    by code_simp
  from prepare_features_described [OF h] h v missing rating show ?thesis by blast
qed

theorem prepare_features_null_counterexample:
  "prepare_features [''ram'' \<mapsto> PNone] phone_schema = Inl TypeError"
  by code_simp

theorem prepare_features_raises_iff_witness:
  "isl (prepare_features [''storage'' \<mapsto> PStr ''512''] phone_schema) =
     (\<exists>name \<in> set (opt_get (feature_columns phone_schema) []).
        \<not> endswith name ''_encoded''
        \<and> (\<exists>v. [''storage'' \<mapsto> PStr ''512''] name = Some v \<and> isl (py_float v)))
   \<and> prepare_features [''storage'' \<mapsto> PStr ''512''] phone_schema = Inr [FloatV (Fin 8), IntV 0]
   \<and> prepare_features Map.empty empty_schema = Inr []"
proof -
  have "prepare_features [''storage'' \<mapsto> PStr ''512''] phone_schema = Inr [FloatV (Fin 8), IntV 0]"
    by code_simp
  moreover have "prepare_features Map.empty empty_schema = Inr []"
    by code_simp
  ultimately show ?thesis
    using prepare_features_raises_iff [of "[''storage'' \<mapsto> PStr ''512'']" phone_schema]
    by blast
qed

theorem prepare_features_text_counterexample:
  "prepare_features [''ram'' \<mapsto> PStr ''abc'', ''storage'' \<mapsto> PStr ''128''] phone_schema
     = Inl ValueError"
  by code_simp


section \<open>Properties of the market comparator\<close>

lemma bind_exn_Inr: "bind_exn r f = Inr y \<longleftrightarrow> (\<exists>x. r = Inr x \<and> f x = Inr y)"
  by (cases r) (simp_all add: bind_exn_def)

























subsection \<open>Instances\<close>











section \<open>Properties of the handlers\<close>

lemma respond_not_found: "respond r \<noteq> NotFound404"
  by (cases r) (simp_all add: respond_def)

lemma backend_predict_not_found:
  "models cat = None \<or> schemas cat = None \<Longrightarrow>
   backend_predict models schemas market_data cat body = NotFound404"
  by (auto simp add: backend_predict_def split: option.splits)

text \<open>
  Claim C6. For a category with a model and no schema, the handler of the backend
  answers 404, and the handler of \<^verbatim>\<open>src/app.py\<close>, which tests the models only, does not:
  it answers with whatever the computation on the empty schema gives.
\<close>

theorem app_predict_without_schema:
  assumes "models cat = Some model" and "schemas cat = None"
  shows "app_predict models schemas market_data cat body
           = respond (app_compute model schemas market_data cat body)
       \<and> app_predict models schemas market_data cat body \<noteq> NotFound404
       \<and> backend_predict models schemas market_data cat body = NotFound404"
  using assms by (simp add: app_predict_def backend_predict_def respond_not_found)

subsection \<open>The confidence\<close>

lemma clamp_finite:
  "py_max (Fin 0.6) (py_min (Fin 0.95) (Fin x)) = Fin (max 0.6 (min 0.95 x))"
  by (simp add: py_max_def py_min_def max_def min_def)

lemma number_value: "is_number v \<Longrightarrow> \<exists>x. py_float v = Inr (Fin x) \<and> py_number v = Inr (Fin x)"
  by (cases v) simp_all

lemma round_half_even_bounds:
  assumes "of_int lo \<le> y" and "y \<le> of_int hi"
  shows "lo \<le> round_half_even y \<and> round_half_even y \<le> hi"
proof -
  have lo: "lo \<le> \<lfloor>y\<rfloor>" using assms(1) by (simp add: le_floor_iff)
  have hi: "\<lfloor>y\<rfloor> \<le> hi" using assms(2) by (simp add: floor_le_iff)
  show ?thesis
  proof (cases "y = of_int \<lfloor>y\<rfloor>")
    case True
    then have "y - of_int \<lfloor>y\<rfloor> = 0" by simp
    then have "round_half_even y = \<lfloor>y\<rfloor>" by (simp add: round_half_even_def Let_def)
    with lo hi show ?thesis by simp
  next
    case False
    then have "of_int \<lfloor>y\<rfloor> < y" using of_int_floor_le [of y] by linarith
    with assms(2) have "of_int \<lfloor>y\<rfloor> < (of_int hi :: real)" by linarith
    then have "\<lfloor>y\<rfloor> < hi" by simp
    moreover have "\<lfloor>y\<rfloor> \<le> round_half_even y \<and> round_half_even y \<le> \<lfloor>y\<rfloor> + 1"
      by (simp add: round_half_even_def Let_def)
    ultimately show ?thesis using lo by linarith
  qed
qed

lemma round_clamp_bounds:
  assumes "0.6 \<le> c" and "c \<le> 0.95"
  shows "\<exists>d. py_round (Fin c) 2 = Fin d \<and> 0.6 \<le> d \<and> d \<le> 0.95"
proof -
  from assms have "of_int 60 \<le> c * 10 ^ 2" and "c * 10 ^ 2 \<le> of_int 95" by simp_all
  from round_half_even_bounds [OF this]
  have "60 \<le> round_half_even (c * 10 ^ 2)" and "round_half_even (c * 10 ^ 2) \<le> 95"
    by simp_all
  then have "(60::real) \<le> of_int (round_half_even (c * 10 ^ 2))"
    and "of_int (round_half_even (c * 10 ^ 2)) \<le> (95::real)"
    by linarith+
  then have "0.6 \<le> (of_int (round_half_even (c * 10 ^ 2)) / 10 ^ 2 :: real)"
    and "(of_int (round_half_even (c * 10 ^ 2)) / 10 ^ 2 :: real) \<le> 0.95"
    by simp_all
  then show ?thesis by (simp only: py_round.simps) blast
qed

lemma respond_Ok: "respond r = Ok200 out \<longleftrightarrow> r = Inr out"
  by (cases r) (simp_all add: respond_def)

lemma app_predict_confidence:
  assumes "app_predict models schemas market_data cat body = Ok200 out"
  shows "\<exists>c. app_confidence (dict_get schemas cat empty_schema) = Inr c
            \<and> confidence out = py_round c 2"
proof -
  from assms obtain model where "app_compute model schemas market_data cat body = Inr out"
    by (auto simp add: app_predict_def respond_Ok split: option.splits)
  then show ?thesis
    by (auto simp add: app_compute_def bind_exn_Inr Let_def)
qed

lemma backend_predict_confidence:
  assumes "backend_predict models schemas market_data cat body = Ok200 out"
  shows "\<exists>c. backend_confidence (dict_get schemas cat empty_schema) = Inr c
            \<and> confidence out = py_round c 2"
proof -
  from assms obtain model sch where "schemas cat = Some sch"
    and "backend_compute model sch market_data cat body = Inr out"
    by (auto simp add: backend_predict_def respond_Ok split: option.splits)
  then show ?thesis
    by (auto simp add: backend_compute_def bind_exn_Inr dict_get_def)
qed

text \<open>
  Claim C7. For a numeric \<^verbatim>\<open>r2_score\<close> of value \<open>x\<close>, both handlers compute the confidence
  \<open>max 0.6 (min 0.95 x)\<close>; the confidence of a prediction they return is that number
  rounded to two decimals, which is at least 0.6 and at most 0.95.
\<close>

theorem confidence_clamped:
  assumes sch: "dict_get schemas cat empty_schema = sch" and num: "is_number (r2_of sch)"
  shows "\<exists>x. py_float (r2_of sch) = Inr (Fin x)
           \<and> app_confidence sch = Inr (Fin (max 0.6 (min 0.95 x)))
           \<and> backend_confidence sch = Inr (Fin (max 0.6 (min 0.95 x)))
           \<and> (\<forall>out. app_predict models schemas market_data cat body = Ok200 out \<longrightarrow>
                 confidence out = py_round (Fin (max 0.6 (min 0.95 x))) 2)
           \<and> (\<forall>out. backend_predict models schemas market_data cat body = Ok200 out \<longrightarrow>
                 confidence out = py_round (Fin (max 0.6 (min 0.95 x))) 2)
           \<and> (\<exists>d. py_round (Fin (max 0.6 (min 0.95 x))) 2 = Fin d \<and> 0.6 \<le> d \<and> d \<le> 0.95)"
proof -
  from number_value [OF num] obtain x where x: "py_float (r2_of sch) = Inr (Fin x)"
    and x': "py_number (r2_of sch) = Inr (Fin x)" by blast
  let ?c = "max 0.6 (min 0.95 x)"
  have app: "app_confidence sch = Inr (Fin ?c)"
    unfolding app_confidence_def x' bind_exn_def by (simp only: sum.case clamp_finite)
  have backend: "backend_confidence sch = Inr (Fin ?c)"
    unfolding backend_confidence_def x bind_exn_def by (simp only: sum.case clamp_finite)
  have "0.6 \<le> ?c" and "?c \<le> 0.95" by simp_all
  then have rounded: "\<exists>d. py_round (Fin ?c) 2 = Fin d \<and> 0.6 \<le> d \<and> d \<le> 0.95"
    by (rule round_clamp_bounds)
  have "confidence out = py_round (Fin ?c) 2"
    if "app_predict models schemas market_data cat body = Ok200 out" for out
    using app_predict_confidence [OF that] app sch by simp
  moreover have "confidence out = py_round (Fin ?c) 2"
    if "backend_predict models schemas market_data cat body = Ok200 out" for out
    using backend_predict_confidence [OF that] backend sch by simp
  ultimately show ?thesis using x app backend rounded by blast
qed

subsection \<open>The percentage\<close>

lemma fdiv_nonzero: "b \<noteq> Fin 0 \<Longrightarrow> \<exists>q. fdiv a b = Inr q"
  by (cases b; cases a) (auto simp add: fdiv_def)

lemma or_one_nonzero: "or_one avg \<noteq> Fin 0"
  by (simp add: or_one_def)

lemma py_max_epsilon_nonzero: "py_max avg (Fin 0.000001) \<noteq> Fin 0"
  by (cases avg) (simp_all add: py_max_def)

text \<open>
  Claim C8, as amended. No predicted price and market average make the percentage raise
  a division error, in either handler. On finite prices, \<^verbatim>\<open>src/app.py\<close> returns the
  difference over \<open>max avg 10\<^sup>-\<^sup>6\<close> times 100, rounded to one decimal; the backend divides
  by the market average itself, or by 1 when it is zero, and rounds to two decimals,
  which is the same quotient whenever the market average is at least \<open>10\<^sup>-\<^sup>6\<close>.
\<close>

theorem percentage_guarded:
  "(\<exists>v. app_percentage pred avg = Inr v)
   \<and> (\<exists>v. backend_percentage pred avg = Inr v)
   \<and> app_percentage (Fin p) (Fin a) = Inr (described_percentage 1 p a)
   \<and> backend_percentage (Fin p) (Fin a)
       = Inr (py_round (Fin (\<bar>p - a\<bar> / (if a = 0 then 1 else a) * 100)) 2)
   \<and> (0.000001 \<le> a \<longrightarrow> backend_percentage (Fin p) (Fin a) = Inr (described_percentage 2 p a))"
proof -
  from fdiv_nonzero [OF py_max_epsilon_nonzero]
  obtain q where "fdiv (fabs (fsub pred avg)) (py_max avg (Fin 0.000001)) = Inr q" by blast
  then have one: "\<exists>v. app_percentage pred avg = Inr v"
    by (simp add: app_percentage_def bind_exn_def)
  from fdiv_nonzero [OF or_one_nonzero]
  obtain q' where "fdiv (fabs (fsub pred avg)) (or_one avg) = Inr q'" by blast
  then have two: "\<exists>v. backend_percentage pred avg = Inr v"
    by (simp add: backend_percentage_def bind_exn_def)
  have m: "py_max (Fin a) (Fin 0.000001) = Fin (max a 0.000001)"
    by (simp add: py_max_def max_def)
  have nz: "max a 0.000001 \<noteq> 0" by (simp add: max_def)
  have "fdiv (fabs (fsub (Fin p) (Fin a))) (Fin (max a 0.000001))
          = Inr (Fin (\<bar>p - a\<bar> / max a 0.000001))"
    using nz by (simp add: fdiv_def fsub_def)
  then have three: "app_percentage (Fin p) (Fin a) = Inr (described_percentage 1 p a)"
    unfolding app_percentage_def described_percentage_def m by (simp add: bind_exn_def)
  have four: "backend_percentage (Fin p) (Fin a)
       = Inr (py_round (Fin (\<bar>p - a\<bar> / (if a = 0 then 1 else a) * 100)) 2)"
    by (simp add: backend_percentage_def or_one_def fdiv_def bind_exn_def fsub_def)
  have five: "backend_percentage (Fin p) (Fin a) = Inr (described_percentage 2 p a)"
    if "0.000001 \<le> a"
  proof -
    from that have "a \<noteq> 0" and "max a 0.000001 = a" by simp_all
    then show ?thesis unfolding four described_percentage_def by simp
  qed
  from one two three four five show ?thesis by blast
qed

theorem backend_percentage_counterexample:
  "backend_percentage (Fin 10) (Fin 0) = Inr (Fin 1000)
   \<and> described_percentage 2 10 0 = Fin 1000000000
   \<and> described_percentage 1 10 0 = Fin 1000000000"
  by (simp add: backend_percentage_def or_one_def fdiv_def bind_exn_def fsub_def
      described_percentage_def round_half_even_def)

section \<open>Properties of the loader\<close>

lemma load_returns_caches: "load_models_and_schemas net st = (r, st') \<Longrightarrow> r = cached st'"
  by (auto simp add: load_models_and_schemas_def Let_def split: if_splits prod.splits)

text \<open>
  Claim C9, as amended. When a call of \<^verbatim>\<open>load_models_and_schemas\<close> returns three non-empty
  dictionaries, the next call returns the same dictionaries, whatever the store would
  answer, and leaves the state unchanged: it sends no request.
\<close>

theorem load_twice:
  assumes first: "load_models_and_schemas net st = ((ms, ss, ds), st')"
    and full: "ms \<noteq> []" "ss \<noteq> []" "ds \<noteq> []"
  shows "load_models_and_schemas net' st' = ((ms, ss, ds), st')"
proof -
  from load_returns_caches [OF first] have "cached st' = (ms, ss, ds)" by simp
  with full show ?thesis
    by (simp add: load_models_and_schemas_def cached_def)
qed

theorem load_twice_counterexample:
  "length (requests_sent (snd (load_models_and_schemas unreachable initial_cache))) = 10
   \<and> length (requests_sent (snd (load_models_and_schemas unreachable
        (snd (load_models_and_schemas unreachable initial_cache))))) = 19"
  by code_simp

section \<open>Instances for the handlers and the loader\<close>

theorem app_predict_without_schema_witness:
  "[''phones'' \<mapsto> fitted_model] ''phones'' = Some fitted_model
   \<and> (Map.empty :: string \<rightharpoonup> schema) ''phones'' = None
   \<and> app_predict [''phones'' \<mapsto> fitted_model] Map.empty example_market ''phones''
        (Inr [''ram'' \<mapsto> PInt 6]) = Error500 ValueError
   \<and> app_predict [''phones'' \<mapsto> fitted_model] Map.empty example_market ''phones''
        (Inr [''ram'' \<mapsto> PInt 6]) \<noteq> NotFound404
   \<and> backend_predict [''phones'' \<mapsto> fitted_model] Map.empty example_market ''phones''
        (Inr [''ram'' \<mapsto> PInt 6]) = NotFound404"
proof -
  have "app_compute fitted_model Map.empty example_market ''phones'' (Inr [''ram'' \<mapsto> PInt 6])
          = Inl ValueError"
    by (simp add: app_compute_def bind_exn_def dict_get_def opt_get_def empty_schema_def
        prepare_features_def fitted_model_def)
  with app_predict_without_schema [of "[''phones'' \<mapsto> fitted_model]" "''phones''" fitted_model
      Map.empty example_market "Inr [''ram'' \<mapsto> PInt 6]"]
  show ?thesis by (simp add: respond_def)
qed

theorem confidence_clamped_witness:
  "dict_get [''phones'' \<mapsto> phone_schema] ''phones'' empty_schema = phone_schema
   \<and> is_number (r2_of phone_schema)
   \<and> py_float (r2_of phone_schema) = Inr (Fin 1.2)
   \<and> app_confidence phone_schema = Inr (Fin 0.95)
   \<and> backend_confidence phone_schema = Inr (Fin 0.95)
   \<and> (\<exists>out. backend_predict [''phones'' \<mapsto> fitted_model] [''phones'' \<mapsto> phone_schema]
               example_market ''phones'' (Inr [''ram'' \<mapsto> PInt 6]) = Ok200 out
             \<and> confidence out = Fin 0.95)
   \<and> py_float (PInt (- 5)) = Inr (Fin (- 5))
   \<and> py_max (Fin 0.6) (py_min (Fin 0.95) (Fin (- 5))) = Fin 0.6"
proof -
  have s: "dict_get [''phones'' \<mapsto> phone_schema] ''phones'' empty_schema = phone_schema"
    by (simp add: dict_get_def)
  have n: "is_number (r2_of phone_schema)"
    by (simp add: r2_of_def phone_schema_def opt_get_def)
  have x: "py_float (r2_of phone_schema) = Inr (Fin 1.2)"
    by (simp add: r2_of_def phone_schema_def opt_get_def pow10_def)
  have c: "max 0.6 (min 0.95 (1.2::real)) = 0.95" by simp
  have r: "py_round (Fin 0.95) 2 = Fin 0.95" by (simp add: round_half_even_def)
  have answered: "\<not> isl (backend_compute fitted_model phone_schema example_market ''phones''
      (Inr [''ram'' \<mapsto> PInt 6]))"
    by code_simp
  then obtain out where "backend_compute fitted_model phone_schema example_market ''phones''
      (Inr [''ram'' \<mapsto> PInt 6]) = Inr out"
    by (cases "backend_compute fitted_model phone_schema example_market ''phones''
      (Inr [''ram'' \<mapsto> PInt 6])") auto
  then have out: "backend_predict [''phones'' \<mapsto> fitted_model] [''phones'' \<mapsto> phone_schema]
      example_market ''phones'' (Inr [''ram'' \<mapsto> PInt 6]) = Ok200 out"
    by (simp add: backend_predict_def respond_def)
  from confidence_clamped [OF s n, of "[''phones'' \<mapsto> fitted_model]" example_market
      "Inr [''ram'' \<mapsto> PInt 6]"] x
  have "app_confidence phone_schema = Inr (Fin (max 0.6 (min 0.95 1.2)))"
    and "backend_confidence phone_schema = Inr (Fin (max 0.6 (min 0.95 1.2)))"
    and "\<forall>out. backend_predict [''phones'' \<mapsto> fitted_model] [''phones'' \<mapsto> phone_schema]
               example_market ''phones'' (Inr [''ram'' \<mapsto> PInt 6]) = Ok200 out \<longrightarrow>
             confidence out = py_round (Fin (max 0.6 (min 0.95 1.2))) 2"
    by auto
  then have app: "app_confidence phone_schema = Inr (Fin 0.95)"
    and backend: "backend_confidence phone_schema = Inr (Fin 0.95)"
    and "\<forall>out. backend_predict [''phones'' \<mapsto> fitted_model] [''phones'' \<mapsto> phone_schema]
               example_market ''phones'' (Inr [''ram'' \<mapsto> PInt 6]) = Ok200 out \<longrightarrow>
             confidence out = Fin 0.95"
    unfolding c r by simp_all
  with out have conf: "\<exists>out. backend_predict [''phones'' \<mapsto> fitted_model]
        [''phones'' \<mapsto> phone_schema] example_market ''phones'' (Inr [''ram'' \<mapsto> PInt 6])
          = Ok200 out \<and> confidence out = Fin 0.95"
    by blast
  have low: "py_max (Fin 0.6) (py_min (Fin 0.95) (Fin (- 5))) = Fin 0.6"
    by (simp add: py_max_def py_min_def)
  have five: "py_float (PInt (- 5)) = Inr (Fin (- 5))" by simp
  from s n x app backend conf five low show ?thesis by blast
qed

theorem percentage_guarded_witness:
  "(0.000001::real) \<le> 100
   \<and> app_percentage (Fin 120) (Fin 100) = Inr (described_percentage 1 120 100)
   \<and> backend_percentage (Fin 120) (Fin 100) = Inr (described_percentage 2 120 100)
   \<and> described_percentage 1 120 100 = Fin 20
   \<and> (\<exists>v. app_percentage (Fin 10) (Fin 0) = Inr v)
   \<and> (\<exists>v. backend_percentage (Fin 10) (Fin 0) = Inr v)"
proof -
  have a: "(0.000001::real) \<le> 100" by simp
  have d: "described_percentage 1 120 100 = Fin 20"
    by (simp add: described_percentage_def round_half_even_def)
  from percentage_guarded [of "Fin 120" "Fin 100" 120 100]
    percentage_guarded [of "Fin 10" "Fin 0" 10 0] a d
  show ?thesis by blast
qed

theorem load_twice_witness:
  "load_models_and_schemas phone_store initial_cache
     = ((fst (fst (load_models_and_schemas phone_store initial_cache)),
         fst (snd (fst (load_models_and_schemas phone_store initial_cache))),
         snd (snd (fst (load_models_and_schemas phone_store initial_cache)))),
        snd (load_models_and_schemas phone_store initial_cache))
   \<and> fst (fst (load_models_and_schemas phone_store initial_cache)) \<noteq> []
   \<and> fst (snd (fst (load_models_and_schemas phone_store initial_cache))) \<noteq> []
   \<and> snd (snd (fst (load_models_and_schemas phone_store initial_cache))) \<noteq> []
   \<and> load_models_and_schemas unreachable (snd (load_models_and_schemas phone_store initial_cache))
       = load_models_and_schemas phone_store initial_cache
   \<and> requests_sent (snd (load_models_and_schemas phone_store initial_cache))
       = [ListModels, GetModel ''phones'', GetSchema ''phones'', GetData ''phones'']"
proof -
  let ?r = "load_models_and_schemas phone_store initial_cache"
  have p: "?r = ((fst (fst ?r), fst (snd (fst ?r)), snd (snd (fst ?r))), snd ?r)" by simp
  have m: "fst (fst ?r) \<noteq> []" by code_simp
  have s: "fst (snd (fst ?r)) \<noteq> []" by code_simp
  have d: "snd (snd (fst ?r)) \<noteq> []" by code_simp
  have q: "requests_sent (snd ?r)
       = [ListModels, GetModel ''phones'', GetSchema ''phones'', GetData ''phones'']"
    by code_simp
  from load_twice [of phone_store initial_cache "fst (fst ?r)" "fst (snd (fst ?r))"
      "snd (snd (fst ?r))" "snd ?r" unreachable] p m s d
  have "load_models_and_schemas unreachable (snd ?r) = ?r" by simp
  with p m s d q show ?thesis by blast
qed


end
